theory Spec2Isabelle
  imports Main
begin

section \<open>The logger facade of \<open>utils/logger/logger.go\<close>\<close>

text \<open>
  The package keeps one package-level variable, \<open>globalLogger\<close>, a pointer to a logger of
  the zap library, and offers \<open>InitLogger\<close>, \<open>GetLogger\<close>, \<open>Sync\<close> and the five emit helpers
  \<open>Debug\<close>, \<open>Info\<close>, \<open>Warn\<close>, \<open>Error\<close>, \<open>Fatal\<close>. The functions of the package are embedded
  as state transformers on a record of everything they read or change. The zap library
  and the operating system are not part of the package: what they decide (whether a file
  opens, what \<open>zap.NewProduction\<close> returns, whether a flush fails) is a parameter, and
  what a zap logger does with a record is modelled in the subsection on zap below.
\<close>

subsection \<open>Data of the zap library that the package builds\<close>

text \<open>
  The constructors of zap that \<open>InitLogger\<close> calls (\<open>NewConsoleEncoder\<close>, \<open>NewJSONEncoder\<close>,
  \<open>NewCore\<close>, \<open>NewTee\<close>, \<open>New\<close> and its options) are plain data here: each keeps the
  arguments it was given.
\<close>

text \<open>The severities the package uses, with the numeric values of \<open>zapcore.Level\<close>.\<close>

datatype Level = DebugLevel | InfoLevel | WarnLevel | ErrorLevel | FatalLevel

fun Level_val :: "Level \<Rightarrow> int" where
  "Level_val DebugLevel = -1"
| "Level_val InfoLevel = 0"
| "Level_val WarnLevel = 1"
| "Level_val ErrorLevel = 2"
| "Level_val FatalLevel = 5"

datatype LevelEncoder = CapitalColorLevelEncoder | CapitalLevelEncoder | LowercaseLevelEncoder
datatype TimeEncoder = ISO8601TimeEncoder | EpochTimeEncoder
datatype DurationEncoder = StringDurationEncoder | SecondsDurationEncoder
datatype CallerEncoder = ShortCallerEncoder

record EncoderConfig =
  TimeKey :: string
  LevelKey :: string
  NameKey :: string
  CallerKey :: string
  MessageKey :: string
  StacktraceKey :: string
  LineEnding :: string
  EncodeLevel :: LevelEncoder
  EncodeTime :: TimeEncoder
  EncodeDuration :: DurationEncoder
  EncodeCaller :: CallerEncoder

datatype Encoder = NewConsoleEncoder EncoderConfig | NewJSONEncoder EncoderConfig

text \<open>A destination of bytes: the two standard streams, or a file opened at a path.\<close>

datatype WriteSyncer = Stdout | Stderr | File string

text \<open>\<open>zapcore.NewCore(enc, ws, level)\<close>: one sink, with its encoding and its threshold.\<close>

record Core =
  enc :: Encoder
  out :: WriteSyncer
  lvl :: Level

definition NewCore :: "Encoder \<Rightarrow> WriteSyncer \<Rightarrow> Level \<Rightarrow> Core" where
  "NewCore e w l = \<lparr>enc = e, out = w, lvl = l\<rparr>"

text \<open>\<open>zapcore.NewTee(cores...)\<close>: the fan-out of the cores, in their order.\<close>

definition NewTee :: "Core list \<Rightarrow> Core list" where
  "NewTee cores = cores"

record Logger =
  core :: "Core list"
  addCaller :: bool
  addStack :: "Level option"

datatype Option = AddCaller | AddStacktrace Level

fun apply_Option :: "Option \<Rightarrow> Logger \<Rightarrow> Logger" where
  "apply_Option AddCaller l = l\<lparr>addCaller := True\<rparr>"
| "apply_Option (AddStacktrace t) l = l\<lparr>addStack := Some t\<rparr>"

text \<open>\<open>zap.New(core, opts...)\<close>: a logger on the core, the options applied in order.\<close>

definition New :: "Core list \<Rightarrow> Option list \<Rightarrow> Logger" where
  "New c opts = fold apply_Option opts \<lparr>core = c, addCaller = False, addStack = None\<rparr>"

text \<open>
  A \<open>*zap.Logger\<close>: \<open>None\<close> is the nil pointer; a non-nil pointer is the address of the
  instance together with the instance (a zap logger is never changed after it is built).
\<close>

type_synonym LoggerPtr = "(nat \<times> Logger) option"

datatype Field = FString string string | FInt string int | FError string

record Entry =
  Level :: Level
  Message :: string
  Fields :: "Field list"
  Caller :: bool
  Stack :: bool

subsection \<open>Errors, the environment and the state of the process\<close>

text \<open>
  \<open>OSError\<close> is an error of the operating system or of the library;
  \<open>Errorf fmt e\<close> is \<open>fmt.Errorf(fmt, e)\<close> wrapping \<open>e\<close> with the verb \<open>%w\<close>.
\<close>

datatype error = OSError string | Errorf string error

text \<open>
  What the package cannot decide:
  \<^item> \<open>OpenFile p\<close>: the error of \<open>os.OpenFile(p, O_APPEND|O_CREATE|O_WRONLY, 0644)\<close>,
    \<open>None\<close> when the file opens;
  \<^item> \<open>NewProduction\<close>: the result of \<open>zap.NewProduction()\<close>, an error or a logger;
  \<^item> \<open>SyncErr w\<close>: the error of flushing the destination \<open>w\<close>, \<open>None\<close> when it succeeds.
\<close>

record Env =
  OpenFile :: "string \<Rightarrow> error option"
  NewProduction :: "error + Logger"
  SyncErr :: "WriteSyncer \<Rightarrow> error option"

text \<open>
  The state: the package variable \<open>globalLogger\<close>; the number of logger instances
  allocated so far (the next address); the files that exist and the file handles the
  process has opened; the records written, each with its destination and encoding, in
  order; and the destinations flushed by \<open>Sync\<close>, in order.
\<close>

record World =
  globalLogger :: LoggerPtr
  allocs :: nat
  fsys :: "string set"
  openHandles :: "string list"
  written :: "(WriteSyncer \<times> Encoder \<times> Entry) list"
  flushed :: "WriteSyncer list"

text \<open>How a call ends: it returns, the process exits, or it panics.\<close>

datatype outcome = Returned | Exited | Panicked

subsection \<open>The zap logger's methods\<close>

text \<open>
  The package calls the methods of \<open>zap.Logger\<close>; the package \<open>go.uber.org/zap\<close> is a
  dependency and its code is not under \<open>src/\<close>. The next definitions give these methods
  the behaviour the spec describes. Writing to a destination is taken to succeed and is
  recorded in \<open>written\<close>.
\<close>

text \<open>
  Modelled from the spec: the threshold test of a zap core (not under \<open>src/\<close>).
  "Records below threshold are dropped by that sink", with the order
  Debug < Info < Warn < Error, and Fatal above them.
\<close>

definition Enabled :: "Level \<Rightarrow> Level \<Rightarrow> bool" where
  "Enabled threshold l = (Level_val threshold \<le> Level_val l)"

text \<open>
  Modelled from the spec: the record a zap logger builds (not under \<open>src/\<close>). The state
  is "configured to attach caller source-location to every record and to attach a stack
  trace to every record at Error severity or above": the caller when the logger has the
  option, the stack trace from the logger's stack-trace level upward.
\<close>

definition mkEntry :: "Logger \<Rightarrow> Level \<Rightarrow> string \<Rightarrow> Field list \<Rightarrow> Entry" where
  "mkEntry l sev msg fs =
     \<lparr>Level = sev, Message = msg, Fields = fs, Caller = addCaller l,
      Stack = (case addStack l of None \<Rightarrow> False | Some t \<Rightarrow> Enabled t sev)\<rparr>"

text \<open>
  Modelled from the spec: the methods \<open>Debug\<close>, \<open>Info\<close>, \<open>Warn\<close>, \<open>Error\<close> and \<open>Fatal\<close> of
  \<open>zap.Logger\<close> (not under \<open>src/\<close>), by the severity \<open>sev\<close> of the method. "Each sink below
  the record's severity threshold drops the record; each sink at or above threshold
  formats and writes it per its own encoding"; "every accepted record is written to all
  constituent sinks"; "Debug/Info/Warn/Error write and return. Fatal writes the record
  and then unconditionally terminates the process". A method called through the nil
  pointer panics (Go's nil dereference) and writes nothing.
\<close>

definition Logger_log ::
  "Level \<Rightarrow> LoggerPtr \<Rightarrow> string \<Rightarrow> Field list \<Rightarrow> World \<Rightarrow> outcome \<times> World" where
  "Logger_log sev p msg fs s =
     (case p of
        None \<Rightarrow> (Panicked, s)
      | Some (a, l) \<Rightarrow>
          (let accepted = filter (\<lambda>c. Enabled (lvl c) sev) (core l);
               e = mkEntry l sev msg fs;
               s' = s\<lparr>written := written s @ map (\<lambda>c. (out c, enc c, e)) accepted\<rparr>
           in (if sev = FatalLevel then Exited else Returned, s')))"

text \<open>
  Modelled from the spec: the method \<open>Sync\<close> of \<open>zap.Logger\<close> (not under \<open>src/\<close>). It
  "instructs every constituent sink to flush any internally buffered bytes to its
  underlying destination" and returns the errors of the flushes that failed (the empty
  list is Go's nil error).
\<close>

definition Logger_Sync :: "Env \<Rightarrow> Logger \<Rightarrow> World \<Rightarrow> error list \<times> World" where
  "Logger_Sync env l s =
     (List.map_filter (\<lambda>c. SyncErr env (out c)) (core l),
      s\<lparr>flushed := flushed s @ map out (core l)\<rparr>)"

subsection \<open>The package's functions\<close>

text \<open>The \<open>switch level\<close> of \<open>InitLogger\<close>, lines 16 to 28.\<close>

definition zapLevel :: "string \<Rightarrow> Level" where
  "zapLevel level =
     (if level = ''debug'' then DebugLevel
      else if level = ''info'' then InfoLevel
      else if level = ''warn'' then WarnLevel
      else if level = ''error'' then ErrorLevel
      else InfoLevel)"

definition encoderConfig :: EncoderConfig where
  "encoderConfig =
     \<lparr>TimeKey = ''time'', LevelKey = ''level'', NameKey = ''logger'', CallerKey = ''caller'',
      MessageKey = ''msg'', StacktraceKey = ''stacktrace'', LineEnding = [CHR 0x0A],
      EncodeLevel = CapitalColorLevelEncoder, EncodeTime = ISO8601TimeEncoder,
      EncodeDuration = StringDurationEncoder, EncodeCaller = ShortCallerEncoder\<rparr>"

definition consoleEncoder :: Encoder where
  "consoleEncoder = NewConsoleEncoder encoderConfig"

definition fileEncoderConfig :: EncoderConfig where
  "fileEncoderConfig = encoderConfig\<lparr>EncodeLevel := CapitalLevelEncoder\<rparr>"

definition fileEncoder :: Encoder where
  "fileEncoder = NewJSONEncoder fileEncoderConfig"

definition consoleWriter :: WriteSyncer where
  "consoleWriter = Stdout"

text \<open>
  Lines 70 to 74: the logger is built on the tee of the cores, allocated at a fresh
  address and stored in \<open>globalLogger\<close>; the function returns nil.
\<close>

definition install :: "Core list \<Rightarrow> World \<Rightarrow> error option \<times> World" where
  "install cores s =
     (let l = New (NewTee cores) [AddCaller, AddStacktrace ErrorLevel]
      in (None, s\<lparr>globalLogger := Some (allocs s, l), allocs := Suc (allocs s)\<rparr>))"

text \<open>
  \<open>InitLogger(level, logFile)\<close>. A successful \<open>os.OpenFile\<close> with \<open>O_CREATE\<close> leaves the
  file existing and a handle open. The result is the returned error (\<open>None\<close> is nil) and
  the state after the call.
\<close>

definition InitLogger :: "Env \<Rightarrow> string \<Rightarrow> string \<Rightarrow> World \<Rightarrow> error option \<times> World" where
  "InitLogger env level logFile s =
     (let cores = [NewCore consoleEncoder consoleWriter (zapLevel level)]
      in if logFile \<noteq> [] then
           (case OpenFile env logFile of
              Some err \<Rightarrow> (Some (Errorf ''failed to open log file: %w'' err), s)
            | None \<Rightarrow>
                (let s1 = s\<lparr>fsys := insert logFile (fsys s),
                             openHandles := openHandles s @ [logFile]\<rparr>;
                     fileWriter = File logFile
                 in install (cores @ [NewCore fileEncoder fileWriter (zapLevel level)]) s1))
         else install cores s)"

text \<open>
  \<open>GetLogger()\<close>. When \<open>globalLogger\<close> is nil it is assigned the first result of
  \<open>zap.NewProduction()\<close>, the error discarded: the new instance, or nil when the
  construction fails. The function returns \<open>globalLogger\<close>.
\<close>

definition GetLogger :: "Env \<Rightarrow> World \<Rightarrow> LoggerPtr \<times> World" where
  "GetLogger env s =
     (if globalLogger s = None then
        (case NewProduction env of
           Inl err \<Rightarrow> (None, s\<lparr>globalLogger := None\<rparr>)
         | Inr l \<Rightarrow>
             (Some (allocs s, l),
              s\<lparr>globalLogger := Some (allocs s, l), allocs := Suc (allocs s)\<rparr>))
      else (globalLogger s, s))"

text \<open>\<open>Sync()\<close>: flushes through the logger when there is one; the error is discarded.\<close>

definition Sync :: "Env \<Rightarrow> World \<Rightarrow> outcome \<times> World" where
  "Sync env s =
     (case globalLogger s of
        Some (a, l) \<Rightarrow> (Returned, snd (Logger_Sync env l s))
      | None \<Rightarrow> (Returned, s))"

text \<open>The helpers: each calls \<open>GetLogger()\<close> and the method of its severity on the result.\<close>

definition Debug :: "Env \<Rightarrow> string \<Rightarrow> Field list \<Rightarrow> World \<Rightarrow> outcome \<times> World" where
  "Debug env msg fs s =
     (case GetLogger env s of (p, s') \<Rightarrow> Logger_log DebugLevel p msg fs s')"

definition Info :: "Env \<Rightarrow> string \<Rightarrow> Field list \<Rightarrow> World \<Rightarrow> outcome \<times> World" where
  "Info env msg fs s =
     (case GetLogger env s of (p, s') \<Rightarrow> Logger_log InfoLevel p msg fs s')"

definition Warn :: "Env \<Rightarrow> string \<Rightarrow> Field list \<Rightarrow> World \<Rightarrow> outcome \<times> World" where
  "Warn env msg fs s =
     (case GetLogger env s of (p, s') \<Rightarrow> Logger_log WarnLevel p msg fs s')"

definition Error :: "Env \<Rightarrow> string \<Rightarrow> Field list \<Rightarrow> World \<Rightarrow> outcome \<times> World" where
  "Error env msg fs s =
     (case GetLogger env s of (p, s') \<Rightarrow> Logger_log ErrorLevel p msg fs s')"

definition Fatal :: "Env \<Rightarrow> string \<Rightarrow> Field list \<Rightarrow> World \<Rightarrow> outcome \<times> World" where
  "Fatal env msg fs s =
     (case GetLogger env s of (p, s') \<Rightarrow> Logger_log FatalLevel p msg fs s')"

text \<open>The helper that emits at a given severity.\<close>

fun emit :: "Level \<Rightarrow> Env \<Rightarrow> string \<Rightarrow> Field list \<Rightarrow> World \<Rightarrow> outcome \<times> World" where
  "emit DebugLevel = Debug"
| "emit InfoLevel = Info"
| "emit WarnLevel = Warn"
| "emit ErrorLevel = Error"
| "emit FatalLevel = Fatal"

text \<open>\<open>n\<close> calls of \<open>GetLogger()\<close> one after another: the instances returned and the last state.\<close>

fun GetLogger_times :: "Env \<Rightarrow> nat \<Rightarrow> World \<Rightarrow> LoggerPtr list \<times> World" where
  "GetLogger_times env 0 s = ([], s)"
| "GetLogger_times env (Suc n) s =
     (case GetLogger env s of (p, s') \<Rightarrow>
        (case GetLogger_times env n s' of (ps, s'') \<Rightarrow> (p # ps, s'')))"

subsection \<open>Callers of \<open>GetLogger\<close> that overlap\<close>

text \<open>
  \<open>GetLogger()\<close> reads or writes \<open>globalLogger\<close> at three places and the package has no
  lock, \<open>sync.Once\<close> or atomic around them, so another caller can run between any two. A
  caller is at the test of line 79, at the assignment of line 81, at the return of
  line 83, or has returned an instance.
\<close>

datatype pc = AtLine79 | AtLine81 | AtLine83 | Finished LoggerPtr

text \<open>One access of one caller: the same tests and updates as in \<open>GetLogger\<close>, one line at a time.\<close>

fun GetLogger_step :: "Env \<Rightarrow> pc \<Rightarrow> World \<Rightarrow> pc \<times> World" where
  "GetLogger_step env AtLine79 s =
     (if globalLogger s = None then (AtLine81, s) else (AtLine83, s))"
| "GetLogger_step env AtLine81 s =
     (case NewProduction env of
        Inl err \<Rightarrow> (AtLine83, s\<lparr>globalLogger := None\<rparr>)
      | Inr l \<Rightarrow>
          (AtLine83, s\<lparr>globalLogger := Some (allocs s, l), allocs := Suc (allocs s)\<rparr>))"
| "GetLogger_step env AtLine83 s = (Finished (globalLogger s), s)"
| "GetLogger_step env (Finished p) s = (Finished p, s)"

text \<open>
  The callers share the state. A schedule is the list of the callers' numbers in the
  order in which they take their next access; a number that names no caller is skipped.
\<close>

fun sched_step :: "Env \<Rightarrow> nat \<Rightarrow> pc list \<times> World \<Rightarrow> pc list \<times> World" where
  "sched_step env i (pcs, s) =
     (if i < length pcs
      then (case GetLogger_step env (pcs ! i) s of (c, s') \<Rightarrow> (pcs[i := c], s'))
      else (pcs, s))"

fun run_schedule :: "Env \<Rightarrow> nat list \<Rightarrow> pc list \<times> World \<Rightarrow> pc list \<times> World" where
  "run_schedule env [] cfg = cfg"
| "run_schedule env (i # sched) cfg = run_schedule env sched (sched_step env i cfg)"

text \<open>The schedule of \<open>n\<close> callers one after another: each takes its three accesses in a row.\<close>

definition one_after_another :: "nat \<Rightarrow> nat list" where
  "one_after_another n = concat (map (\<lambda>i. [i, i, i]) [0..<n])"

subsection \<open>Concrete values for the examples\<close>

text \<open>The process at its start: no logger, nothing allocated, opened, written or flushed.\<close>

definition start :: World where
  "start = \<lparr>globalLogger = None, allocs = 0, fsys = {}, openHandles = [],
            written = [], flushed = []\<rparr>"

text \<open>
  A logger as zap's production preset describes it: one JSON core on standard error at
  Info, with caller and with stack traces from Error. The preset also samples repeated
  records (per second, level and message it lets the first hundred through and then
  every hundredth); the type \<open>Logger\<close> has no sampler, so this value stands for the preset
  only where a record is the first of its level and message. It is used in the examples
  only.
\<close>

definition production :: Logger where
  "production =
     \<lparr>core = [NewCore (NewJSONEncoder
         \<lparr>TimeKey = ''ts'', LevelKey = ''level'', NameKey = ''logger'', CallerKey = ''caller'',
          MessageKey = ''msg'', StacktraceKey = ''stacktrace'', LineEnding = [CHR 0x0A],
          EncodeLevel = LowercaseLevelEncoder, EncodeTime = EpochTimeEncoder,
          EncodeDuration = SecondsDurationEncoder, EncodeCaller = ShortCallerEncoder\<rparr>)
         Stderr InfoLevel],
      addCaller = True, addStack = Some ErrorLevel\<rparr>"

text \<open>
  An environment where the path \<open>/nonexistent/app.log\<close> cannot be opened, every other
  path opens, the production logger is built, and flushing standard output fails.
\<close>

definition env0 :: Env where
  "env0 =
     \<lparr>OpenFile = (\<lambda>p. if p = ''/nonexistent/app.log''
                        then Some (OSError ''no such file or directory'') else None),
      NewProduction = Inr production,
      SyncErr = (\<lambda>w. if w = Stdout then Some (OSError ''invalid argument'') else None)\<rparr>"

section \<open>Properties\<close>

subsection \<open>Shared facts about the functions\<close>

lemma New_opts:
  "New c [AddCaller, AddStacktrace t] = \<lparr>core = c, addCaller = True, addStack = Some t\<rparr>"
  by (simp add: New_def)

lemma install_eq:
  "install cores s =
     (None, s\<lparr>globalLogger := Some (allocs s, \<lparr>core = cores, addCaller = True, addStack = Some ErrorLevel\<rparr>),
              allocs := Suc (allocs s)\<rparr>)"
  by (simp add: install_def New_opts NewTee_def)

lemma InitLogger_success:
  assumes "InitLogger env level logFile s = (None, s1)"
  shows "globalLogger s1 = Some (allocs s,
           \<lparr>core = NewCore consoleEncoder Stdout (zapLevel level) #
                   (if logFile = [] then [] else [NewCore fileEncoder (File logFile) (zapLevel level)]),
            addCaller = True, addStack = Some ErrorLevel\<rparr>)"
  using assms
  by (auto simp: InitLogger_def install_eq consoleWriter_def split: if_splits option.splits)

lemma GetLogger_Some:
  "globalLogger s = Some p \<Longrightarrow> GetLogger env s = (Some p, s)"
  by (simp add: GetLogger_def)

lemma emit_eq:
  "emit sev env msg fs s = (case GetLogger env s of (p, s') \<Rightarrow> Logger_log sev p msg fs s')"
  by (cases sev) (simp_all add: Debug_def Info_def Warn_def Error_def Fatal_def)

lemma emit_Some:
  "globalLogger s = Some (a, l) \<Longrightarrow>
   emit sev env msg fs s =
     (if sev = FatalLevel then Exited else Returned,
      s\<lparr>written := written s @
           map (\<lambda>c. (out c, enc c, mkEntry l sev msg fs)) (filter (\<lambda>c. Enabled (lvl c) sev) (core l))\<rparr>)"
  by (simp add: emit_eq GetLogger_Some Logger_log_def)

lemma filter_all: "\<forall>c\<in>set cs. P c \<Longrightarrow> filter P cs = cs"
  by simp
lemma filter_none: "\<forall>c\<in>set cs. \<not> P c \<Longrightarrow> filter P cs = []"
  by simp

lemma GetLogger_None:
  "globalLogger s = None \<Longrightarrow>
   GetLogger env s =
     (case NewProduction env of
        Inl err \<Rightarrow> (None, s)
      | Inr l \<Rightarrow> (Some (allocs s, l),
                  s\<lparr>globalLogger := Some (allocs s, l), allocs := Suc (allocs s)\<rparr>))"
  by (cases "NewProduction env") (simp_all add: GetLogger_def)

lemma Sync_eq:
  "Sync env s =
     (Returned, case globalLogger s of None \<Rightarrow> s
                | Some (a, l) \<Rightarrow> s\<lparr>flushed := flushed s @ map out (core l)\<rparr>)"
  by (simp add: Sync_def Logger_Sync_def split: option.splits)

lemma Logger_log_Some_outcome:
  "fst (Logger_log sev (Some p) msg fs s) = (if sev = FatalLevel then Exited else Returned)"
  by (cases p) (simp add: Logger_log_def Let_def)

lemma GetLogger_usable:
  assumes "globalLogger s \<noteq> None \<or> \<not> isl (NewProduction env)"
  shows "\<exists>p. GetLogger env s = (Some p, snd (GetLogger env s))
           \<and> globalLogger (snd (GetLogger env s)) = Some p
           \<and> written (snd (GetLogger env s)) = written s"
proof (cases "globalLogger s")
  case (Some p)
  then show ?thesis by (simp add: GetLogger_Some)
next
  case None
  with assms obtain l where "NewProduction env = Inr l"
    by (cases "NewProduction env") auto
  with None show ?thesis by (simp add: GetLogger_None)
qed

lemma GetLogger_times_Some:
  "globalLogger s = Some p \<Longrightarrow> GetLogger_times env n s = (replicate n (Some p), s)"
  by (induction n) (simp_all add: GetLogger_Some)

lemma GetLogger_result_installed:
  "GetLogger env s = (Some p, s1) \<Longrightarrow> globalLogger s1 = Some p"
  by (cases "NewProduction env") (auto simp: GetLogger_def split: if_splits)

subsection \<open>Threshold filtering after a successful initialisation\<close>

text \<open>
  Claim C1. After a successful \<open>InitLogger(level, logFile)\<close> the installed logger has the
  console core, and the file core when \<open>logFile\<close> is not empty, every core with the
  threshold parsed from \<open>level\<close>. As long as \<open>globalLogger\<close> holds that logger, a record
  emitted by a helper at a severity below the threshold is written to no destination,
  and a record at or above the threshold is written once to every core of the logger.
\<close>

theorem InitLogger_threshold_filtering:
  assumes "InitLogger env level logFile s = (None, s1)"
  shows "\<exists>a l. globalLogger s1 = Some (a, l)
     \<and> map out (core l) = Stdout # (if logFile = [] then [] else [File logFile])
     \<and> (\<forall>c \<in> set (core l). lvl c = zapLevel level)
     \<and> (\<forall>s2 env2 sev msg fs. globalLogger s2 = globalLogger s1 \<longrightarrow>
          (Level_val sev < Level_val (zapLevel level) \<longrightarrow>
             written (snd (emit sev env2 msg fs s2)) = written s2)
        \<and> (Level_val (zapLevel level) \<le> Level_val sev \<longrightarrow>
             written (snd (emit sev env2 msg fs s2)) =
               written s2 @ map (\<lambda>c. (out c, enc c, mkEntry l sev msg fs)) (core l)))"
proof -
  let ?l = "\<lparr>core = NewCore consoleEncoder Stdout (zapLevel level) #
                   (if logFile = [] then [] else [NewCore fileEncoder (File logFile) (zapLevel level)]),
            addCaller = True, addStack = Some ErrorLevel\<rparr>"
  have g: "globalLogger s1 = Some (allocs s, ?l)"
    by (rule InitLogger_success [OF assms])
  have outs: "map out (core ?l) = Stdout # (if logFile = [] then [] else [File logFile])"
    by (simp add: NewCore_def)
  have lv: "\<forall>c \<in> set (core ?l). lvl c = zapLevel level"
    by (simp add: NewCore_def)
  have em: "\<And>s2 env2 sev msg fs. globalLogger s2 = globalLogger s1 \<Longrightarrow>
       (Level_val sev < Level_val (zapLevel level) \<longrightarrow>
             written (snd (emit sev env2 msg fs s2)) = written s2)
        \<and> (Level_val (zapLevel level) \<le> Level_val sev \<longrightarrow>
             written (snd (emit sev env2 msg fs s2)) =
               written s2 @ map (\<lambda>c. (out c, enc c, mkEntry ?l sev msg fs)) (core ?l))"
  proof -
    fix s2 :: World and env2 :: Env and sev :: Level and msg :: string and fs :: "Field list"
    assume "globalLogger s2 = globalLogger s1"
    then have g2: "globalLogger s2 = Some (allocs s, ?l)" using g by simp
    have lo: "Level_val sev < Level_val (zapLevel level) \<Longrightarrow>
        filter (\<lambda>c. Enabled (lvl c) sev) (core ?l) = []"
      using lv by (intro filter_none) (simp add: Enabled_def)
    have hi: "Level_val (zapLevel level) \<le> Level_val sev \<Longrightarrow>
        filter (\<lambda>c. Enabled (lvl c) sev) (core ?l) = core ?l"
      using lv by (intro filter_all) (simp add: Enabled_def)
    show "(Level_val sev < Level_val (zapLevel level) \<longrightarrow>
             written (snd (emit sev env2 msg fs s2)) = written s2)
        \<and> (Level_val (zapLevel level) \<le> Level_val sev \<longrightarrow>
             written (snd (emit sev env2 msg fs s2)) =
               written s2 @ map (\<lambda>c. (out c, enc c, mkEntry ?l sev msg fs)) (core ?l))"
      using lo hi by (simp add: emit_Some [OF g2])
  qed
  show ?thesis
  proof (intro exI conjI)
    show "globalLogger s1 = Some (allocs s, ?l)" by (rule g)
    show "map out (core ?l) = Stdout # (if logFile = [] then [] else [File logFile])"
      by (rule outs)
    show "\<forall>c \<in> set (core ?l). lvl c = zapLevel level" by (rule lv)
    show "\<forall>s2 env2 sev msg fs. globalLogger s2 = globalLogger s1 \<longrightarrow>
          (Level_val sev < Level_val (zapLevel level) \<longrightarrow>
             written (snd (emit sev env2 msg fs s2)) = written s2)
        \<and> (Level_val (zapLevel level) \<le> Level_val sev \<longrightarrow>
             written (snd (emit sev env2 msg fs s2)) =
               written s2 @ map (\<lambda>c. (out c, enc c, mkEntry ?l sev msg fs)) (core ?l))"
      by (intro allI impI) (rule em)
  qed
qed

text \<open>
  At \<open>InitLogger("warn", "/tmp/test.log")\<close> from the start state: an Info record is not
  written, an Error record goes to standard output and to the file.
\<close>

theorem InitLogger_threshold_filtering_witness:
  "fst (InitLogger env0 ''warn'' ''/tmp/test.log'' start) = None
   \<and> written (snd (emit InfoLevel env0 ''y'' []
         (snd (InitLogger env0 ''warn'' ''/tmp/test.log'' start)))) = []
   \<and> map fst (written (snd (emit ErrorLevel env0 ''boom'' []
         (snd (InitLogger env0 ''warn'' ''/tmp/test.log'' start))))) =
       [Stdout, File ''/tmp/test.log'']"
proof -
  let ?s1 = "snd (InitLogger env0 ''warn'' ''/tmp/test.log'' start)"
  have h: "InitLogger env0 ''warn'' ''/tmp/test.log'' start = (None, ?s1)"
    by (simp add: InitLogger_def env0_def install_def)
  have w: "written ?s1 = []"
    by (simp add: InitLogger_def env0_def install_def start_def)
  obtain a l where
    o: "map out (core l) = Stdout # (if ''/tmp/test.log'' = [] then [] else [File ''/tmp/test.log''])"
    and e: "\<forall>s2 env2 sev msg fs. globalLogger s2 = globalLogger ?s1 \<longrightarrow>
          (Level_val sev < Level_val (zapLevel ''warn'') \<longrightarrow>
             written (snd (emit sev env2 msg fs s2)) = written s2)
        \<and> (Level_val (zapLevel ''warn'') \<le> Level_val sev \<longrightarrow>
             written (snd (emit sev env2 msg fs s2)) =
               written s2 @ map (\<lambda>c. (out c, enc c, mkEntry l sev msg fs)) (core l))"
    using InitLogger_threshold_filtering [OF h] by (elim exE conjE)
  have lo: "written (snd (emit InfoLevel env0 ''y'' [] ?s1)) = written ?s1"
    using e [rule_format, of ?s1 InfoLevel env0 "''y''" "[]", THEN conjunct1]
    by (simp add: zapLevel_def)
  have hi: "written (snd (emit ErrorLevel env0 ''boom'' [] ?s1)) =
      written ?s1 @ map (\<lambda>c. (out c, enc c, mkEntry l ErrorLevel ''boom'' [])) (core l)"
    using e [rule_format, of ?s1 ErrorLevel env0 "''boom''" "[]", THEN conjunct2]
    by (simp add: zapLevel_def)
  have "map fst (written (snd (emit ErrorLevel env0 ''boom'' [] ?s1))) = map out (core l)"
    unfolding hi by (simp add: w comp_def)
  moreover have "fst (InitLogger env0 ''warn'' ''/tmp/test.log'' start) = None"
    by (simp add: InitLogger_def env0_def install_def)
  ultimately show ?thesis using o lo w by simp
qed

subsection \<open>Parsing the level text\<close>

text \<open>
  Claim C2. \<open>InitLogger\<close> maps the texts \<open>debug\<close>, \<open>info\<close>, \<open>warn\<close>, \<open>error\<close> to the
  thresholds Debug, Info, Warn, Error, by exact comparison, and every other text, the
  empty one included, to Info. Every core of the logger a successful call installs has
  that threshold. The error the call returns does not depend on the level text: it is
  nil unless a non-empty path fails to open.
\<close>

theorem zapLevel_table:
  "zapLevel ''debug'' = DebugLevel \<and> zapLevel ''info'' = InfoLevel
   \<and> zapLevel ''warn'' = WarnLevel \<and> zapLevel ''error'' = ErrorLevel
   \<and> (level \<notin> {''debug'', ''info'', ''warn'', ''error''} \<longrightarrow> zapLevel level = InfoLevel)
   \<and> zapLevel [] = InfoLevel
   \<and> (\<forall>s1. InitLogger env level logFile s = (None, s1) \<longrightarrow>
         (\<exists>a l. globalLogger s1 = Some (a, l) \<and> (\<forall>c \<in> set (core l). lvl c = zapLevel level)))
   \<and> fst (InitLogger env level logFile s) =
         (case (if logFile = [] then None else OpenFile env logFile) of
            None \<Rightarrow> None
          | Some err \<Rightarrow> Some (Errorf ''failed to open log file: %w'' err))"
proof -
  have tbl: "zapLevel ''debug'' = DebugLevel \<and> zapLevel ''info'' = InfoLevel
      \<and> zapLevel ''warn'' = WarnLevel \<and> zapLevel ''error'' = ErrorLevel"
    by (simp add: zapLevel_def)
  have dflt: "level \<notin> {''debug'', ''info'', ''warn'', ''error''} \<longrightarrow> zapLevel level = InfoLevel"
    by (simp add: zapLevel_def)
  have emp: "zapLevel [] = InfoLevel"
    by (simp add: zapLevel_def)
  have thr: "\<forall>s1. InitLogger env level logFile s = (None, s1) \<longrightarrow>
         (\<exists>a l. globalLogger s1 = Some (a, l) \<and> (\<forall>c \<in> set (core l). lvl c = zapLevel level))"
  proof (intro allI impI)
    fix s1 assume "InitLogger env level logFile s = (None, s1)"
    from InitLogger_success [OF this] show
      "\<exists>a l. globalLogger s1 = Some (a, l) \<and> (\<forall>c \<in> set (core l). lvl c = zapLevel level)"
      by (simp add: NewCore_def)
  qed
  have err: "fst (InitLogger env level logFile s) =
         (case (if logFile = [] then None else OpenFile env logFile) of
            None \<Rightarrow> None
          | Some err \<Rightarrow> Some (Errorf ''failed to open log file: %w'' err))"
    by (simp add: InitLogger_def install_eq split: option.splits)
  from tbl dflt emp thr err show ?thesis by (intro conjI) simp_all
qed

text \<open>Texts that differ in case or are unknown give Info; \<open>error\<close> gives Error on both cores.\<close>

theorem zapLevel_table_witness:
  "zapLevel ''Warn'' = InfoLevel \<and> zapLevel ''DEBUG'' = InfoLevel \<and> zapLevel ''verbose'' = InfoLevel
   \<and> globalLogger (snd (InitLogger env0 ''error'' ''/tmp/test.log'' start)) =
       Some (0, New [NewCore consoleEncoder Stdout ErrorLevel,
                     NewCore fileEncoder (File ''/tmp/test.log'') ErrorLevel]
                    [AddCaller, AddStacktrace ErrorLevel])"
proof -
  have a: "zapLevel ''Warn'' = InfoLevel"
    using zapLevel_table [of "''Warn''"] by simp
  have b: "zapLevel ''DEBUG'' = InfoLevel"
    using zapLevel_table [of "''DEBUG''"] by simp
  have c: "zapLevel ''verbose'' = InfoLevel"
    using zapLevel_table [of "''verbose''"] by simp
  have d: "globalLogger (snd (InitLogger env0 ''error'' ''/tmp/test.log'' start)) =
       Some (0, New [NewCore consoleEncoder Stdout ErrorLevel,
                     NewCore fileEncoder (File ''/tmp/test.log'') ErrorLevel]
                    [AddCaller, AddStacktrace ErrorLevel])"
    by (simp add: InitLogger_def env0_def install_def start_def zapLevel_def NewTee_def
        consoleWriter_def)
  from a b c d show ?thesis by simp
qed

subsection \<open>A log file that cannot be opened\<close>

text \<open>
  Claim C3. When \<open>logFile\<close> is not empty and cannot be opened, \<open>InitLogger\<close> returns the
  error of the open wrapped in "failed to open log file", and the state after the call,
  \<open>globalLogger\<close> included, is the state before it.
\<close>

theorem InitLogger_open_failure:
  assumes "logFile \<noteq> []" and "OpenFile env logFile = Some err"
  shows "InitLogger env level logFile s =
           (Some (Errorf ''failed to open log file: %w'' err), s)"
  using assms by (simp add: InitLogger_def)

text \<open>A failed call on a process that holds the fallback logger leaves that logger installed.\<close>

theorem InitLogger_open_failure_witness:
  "InitLogger env0 ''info'' ''/nonexistent/app.log''
       (start\<lparr>globalLogger := Some (0, production), allocs := 1\<rparr>) =
     (Some (Errorf ''failed to open log file: %w'' (OSError ''no such file or directory'')),
      start\<lparr>globalLogger := Some (0, production), allocs := 1\<rparr>)"
proof -
  have n: "''/nonexistent/app.log'' \<noteq> []" by simp
  have f: "OpenFile env0 ''/nonexistent/app.log'' = Some (OSError ''no such file or directory'')"
    by (simp add: env0_def)
  show ?thesis by (rule InitLogger_open_failure [OF n f])
qed

subsection \<open>The fallback and a later initialisation\<close>

text \<open>
  Claim C4, as stated, fails. From the start state \<open>GetLogger()\<close> installs the fallback
  at address 0; a later \<open>InitLogger("debug", "")\<close> succeeds and stores a new logger, at
  address 1, in \<open>globalLogger\<close>: line 72 assigns on every successful call.
\<close>

theorem fallback_replaced_counterexample:
  "GetLogger env0 start = (Some (0, production), start\<lparr>globalLogger := Some (0, production), allocs := 1\<rparr>)
   \<and> fst (InitLogger env0 ''debug'' [] (snd (GetLogger env0 start))) = None
   \<and> globalLogger (snd (InitLogger env0 ''debug'' [] (snd (GetLogger env0 start)))) =
       Some (1, New [NewCore consoleEncoder Stdout DebugLevel] [AddCaller, AddStacktrace ErrorLevel])
   \<and> globalLogger (snd (InitLogger env0 ''debug'' [] (snd (GetLogger env0 start)))) \<noteq>
       globalLogger (snd (GetLogger env0 start))"
  by (simp add: GetLogger_def env0_def start_def InitLogger_def install_def zapLevel_def
      NewTee_def consoleWriter_def)

text \<open>
  Claim C4, amended. Once \<open>GetLogger()\<close> has installed the fallback, the fallback stays in
  \<open>globalLogger\<close> through a later \<open>GetLogger()\<close>, \<open>Sync()\<close>, an emit helper and an
  \<open>InitLogger\<close> that fails (which changes nothing); an \<open>InitLogger\<close> that succeeds replaces
  it with the newly built logger, a different instance.
\<close>

theorem fallback_kept_until_successful_init:
  assumes "globalLogger s = None" and "GetLogger env s = (Some p, s1)"
  shows "globalLogger s1 = Some p
     \<and> GetLogger env2 s1 = (Some p, s1)
     \<and> globalLogger (snd (Sync env2 s1)) = Some p
     \<and> globalLogger (snd (emit sev env2 msg fs s1)) = Some p
     \<and> (fst (InitLogger env2 level logFile s1) \<noteq> None \<longrightarrow>
          snd (InitLogger env2 level logFile s1) = s1)
     \<and> (fst (InitLogger env2 level logFile s1) = None \<longrightarrow>
          (\<exists>l. globalLogger (snd (InitLogger env2 level logFile s1)) = Some (allocs s1, l)
             \<and> core l = NewCore consoleEncoder Stdout (zapLevel level) #
                  (if logFile = [] then [] else [NewCore fileEncoder (File logFile) (zapLevel level)])
             \<and> Some (allocs s1, l) \<noteq> Some p))"
proof -
  from assms obtain l0 where
    p: "p = (allocs s, l0)" and
    s1: "s1 = s\<lparr>globalLogger := Some (allocs s, l0), allocs := Suc (allocs s)\<rparr>"
    by (cases "NewProduction env") (auto simp: GetLogger_def)
  have g: "globalLogger s1 = Some p" by (simp add: p s1)
  have g': "globalLogger s1 = Some (allocs s, l0)" by (simp add: p s1)
  have a: "allocs s1 = Suc (allocs s)" by (simp add: s1)
  have get: "GetLogger env2 s1 = (Some p, s1)" by (rule GetLogger_Some [OF g])
  have sync: "globalLogger (snd (Sync env2 s1)) = Some p"
    using g by (simp add: Sync_eq split: option.splits prod.splits)
  have em: "globalLogger (snd (emit sev env2 msg fs s1)) = Some p"
    by (simp add: emit_Some [OF g'] g)
  have fail: "fst (InitLogger env2 level logFile s1) \<noteq> None \<longrightarrow>
          snd (InitLogger env2 level logFile s1) = s1"
    by (simp add: InitLogger_def install_eq Let_def split: option.splits)
  have ok: "fst (InitLogger env2 level logFile s1) = None \<longrightarrow>
          (\<exists>l. globalLogger (snd (InitLogger env2 level logFile s1)) = Some (allocs s1, l)
             \<and> core l = NewCore consoleEncoder Stdout (zapLevel level) #
                  (if logFile = [] then [] else [NewCore fileEncoder (File logFile) (zapLevel level)])
             \<and> Some (allocs s1, l) \<noteq> Some p)"
  proof
    assume "fst (InitLogger env2 level logFile s1) = None"
    then have "InitLogger env2 level logFile s1 = (None, snd (InitLogger env2 level logFile s1))"
      by (metis prod.collapse)
    from InitLogger_success [OF this] show
      "\<exists>l. globalLogger (snd (InitLogger env2 level logFile s1)) = Some (allocs s1, l)
             \<and> core l = NewCore consoleEncoder Stdout (zapLevel level) #
                  (if logFile = [] then [] else [NewCore fileEncoder (File logFile) (zapLevel level)])
             \<and> Some (allocs s1, l) \<noteq> Some p"
      by (simp add: p a)
  qed
  from g get sync em fail ok show ?thesis by (intro conjI)
qed

text \<open>
  From the start state: the fallback survives a Warn record and a failed
  initialisation; a successful one stores the instance at address 1.
\<close>

theorem fallback_kept_until_successful_init_witness:
  "globalLogger start = None
   \<and> GetLogger env0 start = (Some (0, production), snd (GetLogger env0 start))
   \<and> globalLogger (snd (emit WarnLevel env0 ''z'' [FString ''k'' ''v''] (snd (GetLogger env0 start)))) =
       Some (0, production)
   \<and> snd (InitLogger env0 ''info'' ''/nonexistent/app.log'' (snd (GetLogger env0 start))) =
       snd (GetLogger env0 start)
   \<and> fst (InitLogger env0 ''info'' [] (snd (GetLogger env0 start))) = None
   \<and> fst (the (globalLogger (snd (InitLogger env0 ''info'' [] (snd (GetLogger env0 start)))))) = 1"
proof -
  let ?s1 = "snd (GetLogger env0 start)"
  have n: "globalLogger start = None" by (simp add: start_def)
  have g: "GetLogger env0 start = (Some (0, production), ?s1)"
    by (simp add: GetLogger_def start_def env0_def)
  have a: "allocs ?s1 = 1"
    by (simp add: GetLogger_def start_def env0_def)
  have f: "fst (InitLogger env0 ''info'' ''/nonexistent/app.log'' ?s1) \<noteq> None"
    by (simp add: InitLogger_def env0_def)
  have k: "fst (InitLogger env0 ''info'' [] ?s1) = None"
    by (simp add: InitLogger_def install_def)
  note t = fallback_kept_until_successful_init [OF n g]
  have e: "globalLogger (snd (emit WarnLevel env0 ''z'' [FString ''k'' ''v''] ?s1)) = Some (0, production)"
    using t [of env0 WarnLevel "''z''" "[FString ''k'' ''v'']"] by blast
  have u: "snd (InitLogger env0 ''info'' ''/nonexistent/app.log'' ?s1) = ?s1"
    using t [of env0 WarnLevel "[]" "[]" "''info''" "''/nonexistent/app.log''"] f by blast
  have r: "fst (the (globalLogger (snd (InitLogger env0 ''info'' [] ?s1)))) = 1"
    using t [of env0 WarnLevel "[]" "[]" "''info''" "[]"] k a by auto
  from n g e u k r show ?thesis by (intro conjI)
qed

subsection \<open>The logger that \<open>GetLogger\<close> returns\<close>

text \<open>
  Claim C5. \<open>GetLogger()\<close> has no error result. With the construction of the fallback
  taken as infallible, as the spec does (a logger is installed already, or
  \<open>zap.NewProduction()\<close> returns one), it returns a non-nil instance in every state and
  leaves that instance in \<open>globalLogger\<close>; no emit through the returned instance panics,
  and no emit helper called in that state panics.
\<close>

theorem GetLogger_never_nil:
  assumes "globalLogger s \<noteq> None \<or> \<not> isl (NewProduction env)"
  shows "\<exists>p. fst (GetLogger env s) = Some p
           \<and> globalLogger (snd (GetLogger env s)) = Some p
           \<and> (\<forall>sev msg fs s2. fst (Logger_log sev (Some p) msg fs s2) \<noteq> Panicked)
           \<and> (\<forall>sev msg fs. fst (emit sev env msg fs s) \<noteq> Panicked)"
proof -
  from GetLogger_usable [OF assms] obtain p where
    g: "GetLogger env s = (Some p, snd (GetLogger env s))"
    and i: "globalLogger (snd (GetLogger env s)) = Some p"
    by blast
  have f: "fst (GetLogger env s) = Some p"
    using g by (metis fst_conv)
  have l: "\<forall>sev msg fs s2. fst (Logger_log sev (Some p) msg fs s2) \<noteq> Panicked"
    by (simp add: Logger_log_Some_outcome)
  have e: "\<forall>sev msg fs. fst (emit sev env msg fs s) \<noteq> Panicked"
  proof (intro allI)
    fix sev msg fs
    have "emit sev env msg fs s = Logger_log sev (Some p) msg fs (snd (GetLogger env s))"
      by (subst emit_eq, subst g) simp
    then show "fst (emit sev env msg fs s) \<noteq> Panicked"
      by (simp add: Logger_log_Some_outcome)
  qed
  from f i l e show ?thesis by blast
qed

text \<open>Before any initialisation the fallback is returned; Info returns, Fatal does not panic.\<close>

theorem GetLogger_never_nil_witness:
  "fst (GetLogger env0 start) = Some (0, production)
   \<and> fst (emit InfoLevel env0 ''hello'' [] start) = Returned
   \<and> fst (emit FatalLevel env0 ''bye'' [] start) \<noteq> Panicked"
proof -
  have h: "globalLogger start \<noteq> None \<or> \<not> isl (NewProduction env0)"
    by (simp add: env0_def)
  from GetLogger_never_nil [OF h] obtain p where
    f: "fst (GetLogger env0 start) = Some p"
    and e: "\<forall>sev msg fs. fst (emit sev env0 msg fs start) \<noteq> Panicked"
    by blast
  have a: "fst (GetLogger env0 start) = Some (0, production)"
    by (simp add: GetLogger_def start_def env0_def)
  have b: "fst (emit InfoLevel env0 ''hello'' [] start) = Returned"
    using e [rule_format, of InfoLevel "''hello''" "[]"]
    by (simp add: Info_def GetLogger_def start_def env0_def Logger_log_def)
  have c: "fst (emit FatalLevel env0 ''bye'' [] start) \<noteq> Panicked"
    using e by blast
  from a b c show ?thesis by (intro conjI)
qed

text \<open>
  What the assumption of claim C5 excludes: were \<open>zap.NewProduction()\<close> to return an
  error, line 81 would discard it, \<open>GetLogger()\<close> would return nil and leave the state
  as it was, and a helper would call a method through the nil pointer.
\<close>

lemma GetLogger_nil_when_production_fails:
  assumes "globalLogger s = None" and "NewProduction env = Inl err"
  shows "GetLogger env s = (None, s) \<and> emit sev env msg fs s = (Panicked, s)"
  using assms by (simp add: GetLogger_None emit_eq Logger_log_def)

subsection \<open>Initialisation without a log file\<close>

text \<open>
  Claim C6. For every level text, \<open>InitLogger(level, "")\<close> returns nil, does not consult
  \<open>os.OpenFile\<close> (the result is the same in every environment), leaves the files, the open
  handles and the written records as they were, and installs a logger whose only core
  is the console core on standard output.
\<close>

theorem InitLogger_no_file:
  "InitLogger env level [] s =
     (None, s\<lparr>globalLogger :=
                 Some (allocs s, New [NewCore consoleEncoder Stdout (zapLevel level)]
                                     [AddCaller, AddStacktrace ErrorLevel]),
               allocs := Suc (allocs s)\<rparr>)
   \<and> fsys (snd (InitLogger env level [] s)) = fsys s
   \<and> openHandles (snd (InitLogger env level [] s)) = openHandles s
   \<and> written (snd (InitLogger env level [] s)) = written s
   \<and> map out (core (snd (the (globalLogger (snd (InitLogger env level [] s)))))) = [Stdout]
   \<and> InitLogger env2 level [] s = InitLogger env level [] s"
  by (simp add: InitLogger_def install_def NewTee_def consoleWriter_def New_opts NewCore_def)

text \<open>With an unknown level text and no file, from the start state.\<close>

theorem InitLogger_no_file_witness:
  "fst (InitLogger env0 ''bogus'' [] start) = None
   \<and> fsys (snd (InitLogger env0 ''bogus'' [] start)) = {}
   \<and> openHandles (snd (InitLogger env0 ''bogus'' [] start)) = []
   \<and> globalLogger (snd (InitLogger env0 ''bogus'' [] start)) =
       Some (0, New [NewCore consoleEncoder Stdout InfoLevel] [AddCaller, AddStacktrace ErrorLevel])"
  using InitLogger_no_file [of env0 "''bogus''" start env0]
  by (simp add: start_def zapLevel_def)

subsection \<open>Fatal\<close>

text \<open>
  Claim C7. \<open>Fatal(msg, fields...)\<close> never returns to its caller, in any state. When a
  logger is installed or the fallback can be built, it writes the record to every core
  of the logger that \<open>GetLogger()\<close> returns and then the process exits.
\<close>

theorem Fatal_never_returns:
  "fst (Fatal env msg fs s) \<noteq> Returned
   \<and> (globalLogger s \<noteq> None \<or> \<not> isl (NewProduction env) \<longrightarrow>
        (\<exists>a l. fst (GetLogger env s) = Some (a, l)
           \<and> Fatal env msg fs s =
               (Exited, (snd (GetLogger env s))
                  \<lparr>written := written s @
                     map (\<lambda>c. (out c, enc c, mkEntry l FatalLevel msg fs)) (core l)\<rparr>)))"
proof
  have "fst (Logger_log FatalLevel p msg fs s') \<noteq> Returned" for p s'
    by (cases p) (auto simp: Logger_log_def Let_def)
  then show "fst (Fatal env msg fs s) \<noteq> Returned"
    by (simp add: Fatal_def split: prod.splits)
next
  show "globalLogger s \<noteq> None \<or> \<not> isl (NewProduction env) \<longrightarrow>
        (\<exists>a l. fst (GetLogger env s) = Some (a, l)
           \<and> Fatal env msg fs s =
               (Exited, (snd (GetLogger env s))
                  \<lparr>written := written s @
                     map (\<lambda>c. (out c, enc c, mkEntry l FatalLevel msg fs)) (core l)\<rparr>))"
  proof
    assume "globalLogger s \<noteq> None \<or> \<not> isl (NewProduction env)"
    from GetLogger_usable [OF this] obtain p where
      gp: "GetLogger env s = (Some p, snd (GetLogger env s))"
      and w: "written (snd (GetLogger env s)) = written s"
      by (elim exE conjE)
    obtain a l where p: "p = (a, l)" by (cases p)
    have g: "GetLogger env s = (Some (a, l), snd (GetLogger env s))"
      using gp by (simp only: p)
    have all: "filter (\<lambda>c. Enabled (lvl c) FatalLevel) (core l) = core l"
    proof (rule filter_all, rule ballI)
      fix c show "Enabled (lvl c) FatalLevel"
        by (cases "lvl c") (simp_all add: Enabled_def)
    qed
    have "Fatal env msg fs s = Logger_log FatalLevel (Some (a, l)) msg fs (snd (GetLogger env s))"
      unfolding Fatal_def by (subst g) simp
    also have "\<dots> = (Exited, (snd (GetLogger env s))
                  \<lparr>written := written s @
                     map (\<lambda>c. (out c, enc c, mkEntry l FatalLevel msg fs)) (core l)\<rparr>)"
      by (simp add: Logger_log_def all w)
    finally have F: "Fatal env msg fs s =
               (Exited, (snd (GetLogger env s))
                  \<lparr>written := written s @
                     map (\<lambda>c. (out c, enc c, mkEntry l FatalLevel msg fs)) (core l)\<rparr>)" .
    have fg: "fst (GetLogger env s) = Some (a, l)"
      by (subst g) simp
    show "\<exists>a l. fst (GetLogger env s) = Some (a, l)
           \<and> Fatal env msg fs s =
               (Exited, (snd (GetLogger env s))
                  \<lparr>written := written s @
                     map (\<lambda>c. (out c, enc c, mkEntry l FatalLevel msg fs)) (core l)\<rparr>)"
    proof (intro exI conjI)
      show "fst (GetLogger env s) = Some (a, l)" by (rule fg)
      show "Fatal env msg fs s =
               (Exited, (snd (GetLogger env s))
                  \<lparr>written := written s @
                     map (\<lambda>c. (out c, enc c, mkEntry l FatalLevel msg fs)) (core l)\<rparr>)"
        by (rule F)
    qed
  qed
qed

text \<open>
  Fatal on the fallback writes to standard error and exits; Fatal after
  \<open>InitLogger("error", "/tmp/test.log")\<close> exits.
\<close>

theorem Fatal_never_returns_witness:
  "fst (Fatal env0 ''Failed'' [FError ''boom''] start) = Exited
   \<and> map fst (written (snd (Fatal env0 ''Failed'' [FError ''boom''] start))) = [Stderr]
   \<and> fst (Fatal env0 ''Failed'' [] (snd (InitLogger env0 ''error'' ''/tmp/test.log'' start))) = Exited"
proof -
  let ?s1 = "snd (InitLogger env0 ''error'' ''/tmp/test.log'' start)"
  have h: "globalLogger start \<noteq> None \<or> \<not> isl (NewProduction env0)"
    by (simp add: env0_def)
  have g: "GetLogger env0 start =
      (Some (0, production), start\<lparr>globalLogger := Some (0, production), allocs := Suc 0\<rparr>)"
    by (simp add: GetLogger_def start_def env0_def)
  have h1: "globalLogger ?s1 \<noteq> None \<or> \<not> isl (NewProduction env0)"
    by (simp add: env0_def)
  from Fatal_never_returns [of env0 "''Failed''" "[FError ''boom'']" start,
      THEN conjunct2, rule_format, OF h]
  obtain a l where
    "fst (GetLogger env0 start) = Some (a, l)"
    and f: "Fatal env0 ''Failed'' [FError ''boom''] start =
               (Exited, (snd (GetLogger env0 start))
                  \<lparr>written := written start @
                     map (\<lambda>c. (out c, enc c, mkEntry l FatalLevel ''Failed'' [FError ''boom''])) (core l)\<rparr>)"
    by (elim exE conjE)
  then have l: "l = production" by (simp add: g)
  have a: "fst (Fatal env0 ''Failed'' [FError ''boom''] start) = Exited"
    by (simp add: f)
  have b: "map fst (written (snd (Fatal env0 ''Failed'' [FError ''boom''] start))) = [Stderr]"
    unfolding f l by (simp add: start_def production_def NewCore_def)
  have c: "fst (Fatal env0 ''Failed'' [] ?s1) = Exited"
    using Fatal_never_returns [of env0 "''Failed''" "[]" ?s1, THEN conjunct2, rule_format, OF h1]
    by (elim exE conjE) (simp only: fst_conv)
  from a b c show ?thesis by (intro conjI)
qed

subsection \<open>Flushing\<close>

text \<open>
  Claim C8. \<open>Sync()\<close> always returns and has no error result: the errors of the flushes
  are discarded, so the call is the same whatever the flushes answer. It leaves
  \<open>globalLogger\<close>, the allocated instances and the written records as they were. When no
  logger is installed it changes nothing, so \<open>globalLogger\<close> stays nil and no fallback is
  built; when one is installed it flushes the destination of each of its cores.
\<close>

theorem Sync_swallows_errors:
  "fst (Sync env s) = Returned
   \<and> globalLogger (snd (Sync env s)) = globalLogger s
   \<and> allocs (snd (Sync env s)) = allocs s
   \<and> written (snd (Sync env s)) = written s
   \<and> Sync (env\<lparr>SyncErr := f\<rparr>) s = Sync env s
   \<and> (globalLogger s = None \<longrightarrow> Sync env s = (Returned, s))
   \<and> (\<forall>a l. globalLogger s = Some (a, l) \<longrightarrow>
         flushed (snd (Sync env s)) = flushed s @ map out (core l))"
  by (simp add: Sync_eq split: option.splits)

text \<open>
  From the start state \<open>Sync()\<close> changes nothing. After \<open>InitLogger("info", "")\<close>, in an
  environment where flushing standard output fails, the logger's flush reports the
  error and \<open>Sync()\<close> returns all the same, having flushed standard output.
\<close>

theorem Sync_swallows_errors_witness:
  "Sync env0 start = (Returned, start)
   \<and> globalLogger (snd (Sync env0 start)) = None
   \<and> fst (Logger_Sync env0 (snd (the (globalLogger (snd (InitLogger env0 ''info'' [] start)))))
            (snd (InitLogger env0 ''info'' [] start))) = [OSError ''invalid argument'']
   \<and> fst (Sync env0 (snd (InitLogger env0 ''info'' [] start))) = Returned
   \<and> flushed (snd (Sync env0 (snd (InitLogger env0 ''info'' [] start)))) = [Stdout]"
proof -
  let ?s1 = "snd (InitLogger env0 ''info'' [] start)"
  have n: "globalLogger start = None" by (simp add: start_def)
  have g: "globalLogger ?s1 =
      Some (0, \<lparr>core = [NewCore consoleEncoder Stdout InfoLevel], addCaller = True,
                addStack = Some ErrorLevel\<rparr>)"
    by (simp add: InitLogger_def install_eq start_def consoleWriter_def zapLevel_def)
  have fl: "flushed ?s1 = []"
    by (simp add: InitLogger_def install_eq start_def)
  note t0 = Sync_swallows_errors [of env0 start]
  note t1 = Sync_swallows_errors [of env0 ?s1]
  have a: "Sync env0 start = (Returned, start)"
    using t0 n by simp
  have b: "globalLogger (snd (Sync env0 start)) = None"
    using t0 n by simp
  have c: "fst (Logger_Sync env0 (snd (the (globalLogger ?s1))) ?s1) = [OSError ''invalid argument'']"
    unfolding g by (simp add: Logger_Sync_def List.map_filter_def NewCore_def env0_def)
  have d: "fst (Sync env0 ?s1) = Returned"
    using t1 by simp
  have e: "flushed (snd (Sync env0 ?s1)) = [Stdout]"
    using t1 g fl by (simp add: NewCore_def)
  from a b c d e show ?thesis by (intro conjI)
qed

subsection \<open>Repeated calls of \<open>GetLogger\<close>\<close>

text \<open>
  Claim C10. When \<open>globalLogger\<close> is not nil, \<open>GetLogger()\<close> returns exactly that
  instance and leaves the state unchanged, and so do any number of calls in a row. From
  a call that returns a non-nil instance onward, every further call, with no
  \<open>InitLogger\<close> in between, returns that same instance.
\<close>

theorem GetLogger_idempotent:
  "(globalLogger s = Some p \<longrightarrow>
      GetLogger env s = (Some p, s) \<and> GetLogger_times env n s = (replicate n (Some p), s))
   \<and> (GetLogger env s = (Some p, s1) \<longrightarrow>
      globalLogger s1 = Some p \<and> GetLogger env2 s1 = (Some p, s1)
      \<and> GetLogger_times env2 n s1 = (replicate n (Some p), s1))"
proof (intro conjI impI)
  assume "globalLogger s = Some p"
  then show "GetLogger env s = (Some p, s)"
    and "GetLogger_times env n s = (replicate n (Some p), s)"
    by (rule GetLogger_Some, rule GetLogger_times_Some)
next
  assume "GetLogger env s = (Some p, s1)"
  then have i: "globalLogger s1 = Some p"
    by (rule GetLogger_result_installed)
  show "globalLogger s1 = Some p" by (rule i)
  show "GetLogger env2 s1 = (Some p, s1)" by (rule GetLogger_Some [OF i])
  show "GetLogger_times env2 n s1 = (replicate n (Some p), s1)"
    by (rule GetLogger_times_Some [OF i])
qed

text \<open>From the start state: the first call installs the fallback, the next calls return it.\<close>

theorem GetLogger_idempotent_witness:
  "GetLogger env0 start =
     (Some (0, production), start\<lparr>globalLogger := Some (0, production), allocs := 1\<rparr>)
   \<and> GetLogger_times env0 2 (start\<lparr>globalLogger := Some (0, production), allocs := 1\<rparr>) =
       ([Some (0, production), Some (0, production)],
        start\<lparr>globalLogger := Some (0, production), allocs := 1\<rparr>)
   \<and> GetLogger env0 (start\<lparr>globalLogger := Some (0, production), allocs := 1\<rparr>) =
       (Some (0, production), start\<lparr>globalLogger := Some (0, production), allocs := 1\<rparr>)"
proof -
  let ?s1 = "start\<lparr>globalLogger := Some (0, production), allocs := 1\<rparr>"
  have g: "GetLogger env0 start = (Some (0, production), ?s1)"
    by (simp add: GetLogger_def start_def env0_def)
  have i: "globalLogger ?s1 = Some (0, production)" by simp
  have r: "GetLogger_times env0 2 ?s1 = (replicate 2 (Some (0, production)), ?s1)"
    using GetLogger_idempotent [of start "(0, production)" env0 2 ?s1 env0,
        THEN conjunct2, rule_format, OF g]
    by (elim conjE)
  have again: "GetLogger env0 ?s1 = (Some (0, production), ?s1)"
    using GetLogger_idempotent [of ?s1 "(0, production)" env0 0 ?s1 env0,
        THEN conjunct1, rule_format, OF i]
    by (elim conjE)
  have two: "replicate 2 (Some (0::nat, production)) = [Some (0, production), Some (0, production)]"
    by (simp add: numeral_2_eq_2)
  from g r again show ?thesis unfolding two by (intro conjI)
qed

subsection \<open>First use by several callers\<close>

text \<open>
  A caller that takes its three accesses with no other caller in between does what
  \<open>GetLogger\<close> does, in every environment and state.
\<close>

lemma run_schedule_append:
  "run_schedule env (xs @ ys) cfg = run_schedule env ys (run_schedule env xs cfg)"
  by (induction xs arbitrary: cfg) simp_all

lemma GetLogger_steps:
  "GetLogger_step env AtLine79 s = (c1, s1) \<Longrightarrow> GetLogger_step env c1 s1 = (c2, s2) \<Longrightarrow>
   GetLogger_step env c2 s2 = (c3, s3) \<Longrightarrow>
   c3 = Finished (fst (GetLogger env s)) \<and> s3 = snd (GetLogger env s)"
  by (cases "NewProduction env") (auto simp: GetLogger_def split: if_splits)

lemma caller_alone:
  assumes "i < length pcs" and "pcs ! i = AtLine79"
  shows "run_schedule env [i, i, i] (pcs, s) =
           (pcs[i := Finished (fst (GetLogger env s))], snd (GetLogger env s))"
proof -
  obtain c1 s1 where a: "GetLogger_step env AtLine79 s = (c1, s1)" by (cases "GetLogger_step env AtLine79 s")
  obtain c2 s2 where b: "GetLogger_step env c1 s1 = (c2, s2)" by (cases "GetLogger_step env c1 s1")
  obtain c3 s3 where c: "GetLogger_step env c2 s2 = (c3, s3)" by (cases "GetLogger_step env c2 s2")
  from GetLogger_steps [OF a b c] have r: "c3 = Finished (fst (GetLogger env s))" "s3 = snd (GetLogger env s)"
    by simp_all
  have "run_schedule env [i, i, i] (pcs, s) = (pcs[i := c3], s3)"
    using assms a b c by simp
  then show ?thesis by (simp only: r)
qed

lemma GetLogger_steps_alone:
  "run_schedule env [0, 0, 0] ([AtLine79], s) =
     ([Finished (fst (GetLogger env s))], snd (GetLogger env s))"
  using caller_alone [of 0 "[AtLine79]" env s] by simp

lemma run_first_callers:
  assumes p: "fst (GetLogger env s) = Some p"
  shows "k \<le> n \<Longrightarrow> 0 < k \<Longrightarrow>
     run_schedule env (one_after_another k) (replicate n AtLine79, s) =
       (replicate k (Finished (Some p)) @ replicate (n - k) AtLine79, snd (GetLogger env s))"
proof (induction k)
  case 0
  then show ?case by simp
next
  case (Suc k)
  let ?s' = "snd (GetLogger env s)"
  have g: "GetLogger env s = (Some p, ?s')" using p by (metis prod.collapse)
  have inst: "globalLogger ?s' = Some p" by (rule GetLogger_result_installed [OF g])
  have again: "GetLogger env ?s' = (Some p, ?s')" by (rule GetLogger_Some [OF inst])
  have split: "one_after_another (Suc k) = one_after_another k @ [k, k, k]"
    by (simp add: one_after_another_def)
  show ?case
  proof (cases "k = 0")
    case True
    have "run_schedule env [0, 0, 0] (replicate n AtLine79, s) =
        ((replicate n AtLine79)[0 := Finished (fst (GetLogger env s))], ?s')"
      using Suc.prems by (intro caller_alone) simp_all
    moreover have "(replicate n AtLine79)[0 := Finished (Some p)] =
        replicate (Suc 0) (Finished (Some p)) @ replicate (n - Suc 0) AtLine79"
      using Suc.prems by (cases n) simp_all
    ultimately show ?thesis
      using True by (simp add: one_after_another_def p)
  next
    case False
    then have k: "0 < k" "k \<le> n" "k < n" using Suc.prems by simp_all
    let ?pcs = "replicate k (Finished (Some p)) @ replicate (n - k) AtLine79"
    have ih: "run_schedule env (one_after_another k) (replicate n AtLine79, s) = (?pcs, ?s')"
      using Suc.IH k by simp
    have len: "k < length ?pcs" using k by simp
    have at: "?pcs ! k = AtLine79" using k by (simp add: nth_append)
    have step: "run_schedule env [k, k, k] (?pcs, ?s') =
        (?pcs[k := Finished (fst (GetLogger env ?s'))], snd (GetLogger env ?s'))"
      by (rule caller_alone [OF len at])
    have upd: "?pcs[k := Finished (Some p)] =
        replicate (Suc k) (Finished (Some p)) @ replicate (n - Suc k) AtLine79"
    proof -
      from k obtain m where m: "n - k = Suc m" by (cases "n - k") simp_all
      then have "n - Suc k = m" by simp
      then show ?thesis
        by (simp add: m list_update_append replicate_append_same)
    qed
    show ?thesis
      unfolding split run_schedule_append ih step
      by (simp only: again fst_conv snd_conv upd)
  qed
qed

text \<open>
  Claim C9, as stated, fails. Two callers start before any initialisation. Both pass
  the test of line 79 while \<open>globalLogger\<close> is nil; the first builds the instance at
  address 0, stores it and returns it; the second then builds the instance at address
  1, stores it over the first and returns it. Two fallback instances exist and the
  callers hold different ones.
\<close>

theorem overlapping_callers_counterexample:
  "run_schedule env0 [0, 1, 0, 0, 1, 1] ([AtLine79, AtLine79], start) =
     ([Finished (Some (0, production)), Finished (Some (1, production))],
      start\<lparr>globalLogger := Some (1, production), allocs := 2\<rparr>)
   \<and> Some (0::nat, production) \<noteq> Some (1, production)"
  by (simp add: start_def env0_def)

text \<open>
  Claim C9, amended. When the calls of \<open>GetLogger()\<close> before any initialisation do not
  overlap (each caller takes its three accesses before the next caller starts) and the
  fallback can be built, exactly one fallback instance is built and installed, and it is
  the instance every caller gets.
\<close>

theorem one_fallback_when_calls_do_not_overlap:
  assumes "globalLogger s = None" and "NewProduction env = Inr l" and "0 < n"
  shows "run_schedule env (one_after_another n) (replicate n AtLine79, s) =
           (replicate n (Finished (Some (allocs s, l))),
            s\<lparr>globalLogger := Some (allocs s, l), allocs := Suc (allocs s)\<rparr>)"
proof -
  have g: "GetLogger env s =
      (Some (allocs s, l), s\<lparr>globalLogger := Some (allocs s, l), allocs := Suc (allocs s)\<rparr>)"
    using assms by (simp add: GetLogger_None)
  then have p: "fst (GetLogger env s) = Some (allocs s, l)" by simp
  from run_first_callers [OF p, of n n] assms(3) g show ?thesis by simp
qed

text \<open>Three callers one after another from the start state all get the instance at address 0.\<close>

theorem one_fallback_when_calls_do_not_overlap_witness:
  "run_schedule env0 [0, 0, 0, 1, 1, 1, 2, 2, 2] ([AtLine79, AtLine79, AtLine79], start) =
     ([Finished (Some (0, production)), Finished (Some (0, production)),
       Finished (Some (0, production))],
      start\<lparr>globalLogger := Some (0, production), allocs := 1\<rparr>)"
proof -
  have a: "globalLogger start = None" by (simp add: start_def)
  have b: "NewProduction env0 = Inr production" by (simp add: env0_def)
  have c: "(0::nat) < 3" by simp
  have s: "one_after_another 3 = [0, 0, 0, 1, 1, 1, 2, 2, 2]"
    by (simp add: one_after_another_def numeral_3_eq_3 upt_rec)
  have r: "replicate 3 x = [x, x, x]" for x :: "'a"
    by (simp add: numeral_3_eq_3)
  have z: "allocs start = 0" by (simp add: start_def)
  show ?thesis
    using one_fallback_when_calls_do_not_overlap [OF a b c] by (simp add: s r z)
qed

end
